theory Spec2Isabelle
  imports Main
begin

section \<open>Python values, exceptions and HTTP responses\<close>

text \<open>
  The values that \<^verbatim>\<open>response.json()\<close> yields, which are also the values the script's
  variables hold: \<^verbatim>\<open>None\<close> is \<open>JNull\<close>, a \<^verbatim>\<open>str\<close> is \<open>JStr\<close>, a \<^verbatim>\<open>dict\<close> is
  \<open>JObj\<close> with its items (the keys of a dict are distinct; a lookup takes the first
  item with the key). Numbers are integers.
\<close>

datatype json =
    JNull
  | JBool bool
  | JNum int
  | JStr string
  | JArr "json list"
  | JObj "(string \<times> json) list"

text \<open>Python's truth value of an object, as \<^verbatim>\<open>if x\<close> and \<^verbatim>\<open>not x\<close> test it.\<close>

fun truthy :: "json \<Rightarrow> bool" where
  "truthy JNull = False"
| "truthy (JBool b) = b"
| "truthy (JNum n) = (n \<noteq> 0)"
| "truthy (JStr s) = (s \<noteq> [])"
| "truthy (JArr xs) = (xs \<noteq> [])"
| "truthy (JObj kvs) = (kvs \<noteq> [])"

text \<open>
  A value of \<^verbatim>\<open>os.getenv\<close>: \<open>None\<close> when the variable is unset. Its truth value,
  and the Python value it is.
\<close>

definition env_truthy :: "string option \<Rightarrow> bool" where
  "env_truthy v = (case v of None \<Rightarrow> False | Some s \<Rightarrow> s \<noteq> [])"

definition env_value :: "string option \<Rightarrow> json" where
  "env_value v = (case v of None \<Rightarrow> JNull | Some s \<Rightarrow> JStr s)"

text \<open>
  The exceptions the script meets. \<open>RequestException\<close> is what the HTTP library raises
  on a transport error, with its message; \<open>FailedToGetIP\<close> is the
  \<^verbatim>\<open>Exception(f"Failed to get IP: {status}")\<close> of \<^verbatim>\<open>get_current_ip\<close>. All are
  subclasses of \<^verbatim>\<open>Exception\<close> but \<open>KeyboardInterrupt\<close>, which \<^verbatim>\<open>except Exception\<close>
  lets through.
\<close>

datatype py_exn =
    RequestException string
  | FailedToGetIP int
  | JSONDecodeError
  | AttributeError
  | TypeError
  | KeyError
  | IndexError
  | ValueError
  | KeyboardInterrupt

fun is_Exception :: "py_exn \<Rightarrow> bool" where
  "is_Exception KeyboardInterrupt = False"
| "is_Exception _ = True"

text \<open>
  What a call of \<^verbatim>\<open>requests.get\<close> or \<^verbatim>\<open>requests.put\<close> gives: it raises, or it returns a
  response with its \<^verbatim>\<open>status_code\<close>, its \<^verbatim>\<open>text\<close> and the value of \<^verbatim>\<open>response.json()\<close>
  (\<open>None\<close> when the body is not JSON, where \<^verbatim>\<open>json()\<close> raises).
\<close>

datatype http_result =
    Raises py_exn
  | Response int string "json option"

definition response_json :: "json option \<Rightarrow> py_exn + json" where
  "response_json js = (case js of None \<Rightarrow> Inl JSONDecodeError | Some v \<Rightarrow> Inr v)"

text \<open>\<^verbatim>\<open>x.get(k, d)\<close>: only a dict has the method.\<close>

fun py_get :: "json \<Rightarrow> string \<Rightarrow> json \<Rightarrow> py_exn + json" where
  "py_get (JObj kvs) k d = Inr (case map_of kvs k of None \<Rightarrow> d | Some v \<Rightarrow> v)"
| "py_get _ k d = Inl AttributeError"

text \<open>\<^verbatim>\<open>x[k]\<close> for a string key \<open>k\<close>.\<close>

fun py_item :: "json \<Rightarrow> string \<Rightarrow> py_exn + json" where
  "py_item (JObj kvs) k = (case map_of kvs k of None \<Rightarrow> Inl KeyError | Some v \<Rightarrow> Inr v)"
| "py_item _ k = Inl TypeError"

text \<open>\<^verbatim>\<open>len(x)\<close>.\<close>

fun py_len :: "json \<Rightarrow> py_exn + nat" where
  "py_len (JStr s) = Inr (length s)"
| "py_len (JArr xs) = Inr (length xs)"
| "py_len (JObj kvs) = Inr (length kvs)"
| "py_len _ = Inl TypeError"

text \<open>\<^verbatim>\<open>x[0]\<close>: a dict parsed from JSON has string keys only, so the key \<open>0\<close> is missing.\<close>

fun py_index0 :: "json \<Rightarrow> py_exn + json" where
  "py_index0 (JArr []) = Inl IndexError"
| "py_index0 (JArr (x # xs)) = Inr x"
| "py_index0 (JStr []) = Inl IndexError"
| "py_index0 (JStr (c # cs)) = Inr (JStr [c])"
| "py_index0 (JObj kvs) = Inl KeyError"
| "py_index0 _ = Inl TypeError"

section \<open>Configuration, requests and the trace of a run\<close>

text \<open>
  The module's globals, as read from the environment. \<open>DNS_RECORD_ID\<close> is a string or
  \<open>None\<close> at first; \<^verbatim>\<open>main\<close> rebinds it to what the discovery returns.
\<close>

record config =
  CF_API_TOKEN :: "string option"
  ZONE_ID :: "string option"
  DNS_RECORD_ID :: json
  DOMAIN_NAME :: "string option"
  RECORD_TYPE :: string
  TTL :: int
  PROXIED :: bool
  CHECK_INTERVAL :: int

text \<open>
  The four HTTP calls, by what the script puts into them: the bearer token, the zone
  and record of the URL, the query parameters \<^verbatim>\<open>name\<close> and \<^verbatim>\<open>type\<close> of the list call,
  and the JSON body of the update.
\<close>

datatype request =
    GetIpify
  | ListRecords "string option" "string option" "string option" string
  | GetRecord "string option" "string option" json
  | PutRecord "string option" "string option" json json

type_synonym env = "request \<Rightarrow> http_result"

datatype level = INFO | ERROR

text \<open>The log lines of the script, one constructor for each, with the values it prints.\<close>

datatype message =
    Error_getting_current_IP py_exn
  | Found_DNS_record_ID "string option" json
  | No_DNS_records_found "string option" string
  | Failed_to_get_DNS_records int string
  | Error_getting_DNS_record_ID py_exn
  | Failed_to_get_DNS_record int string
  | Error_getting_Cloudflare_DNS_record py_exn
  | Successfully_updated string
  | API_returned_success_false json
  | Failed_to_update_DNS_record int string
  | Error_updating_Cloudflare_DNS_record py_exn
  | Current_public_IP string
  | Failed_to_retrieve_Skipping_update
  | Current_Cloudflare_IP json
  | IP_address_has_changed json string
  | DNS_record_updated_successfully
  | Failed_to_update
  | IP_address_unchanged
  | Error_in_check_and_update py_exn
  | Starting
  | Missing_required_variables "string list"
  | Please_check_env_file
  | Both_missing
  | Attempting_to_find "string option"
  | Could_not_find "string option"
  | Using_DNS_record_ID json
  | Will_check_every int
  | Script_interrupted
  | Unexpected_error py_exn

datatype event = Call request | Log level message | Sleep int

text \<open>The HTTP calls of a trace, in order, and those of one kind.\<close>

fun calls :: "event list \<Rightarrow> request list" where
  "calls [] = []"
| "calls (Call r # es) = r # calls es"
| "calls (e # es) = calls es"

fun is_read :: "request \<Rightarrow> bool" where
  "is_read (GetRecord tok z r) = True"
| "is_read _ = False"

fun is_update :: "request \<Rightarrow> bool" where
  "is_update (PutRecord tok z r b) = True"
| "is_update _ = False"

definition read_calls :: "event list \<Rightarrow> request list" where
  "read_calls tr = filter is_read (calls tr)"

definition update_calls :: "event list \<Rightarrow> request list" where
  "update_calls tr = filter is_update (calls tr)"

text \<open>Every pass starts with the call of the IP echo: the passes a trace has begun.\<close>

definition passes :: "event list \<Rightarrow> nat" where
  "passes tr = length (filter (\<lambda>r. r = GetIpify) (calls tr))"


section \<open>The IP resolver\<close>

definition get_current_ip :: "env \<Rightarrow> (py_exn + string) \<times> event list" where
  "get_current_ip env =
     (case env GetIpify of
        Raises e \<Rightarrow>
          if is_Exception e
          then (Inl e, [Call GetIpify, Log ERROR (Error_getting_current_IP e)])
          else (Inl e, [Call GetIpify])
      | Response status_code txt js \<Rightarrow>
          if status_code = 200 then (Inr txt, [Call GetIpify])
          else (Inl (FailedToGetIP status_code),
                [Call GetIpify, Log ERROR (Error_getting_current_IP (FailedToGetIP status_code))]))"

section \<open>The DNS record client\<close>

text \<open>
  The body of \<^verbatim>\<open>get_dns_record_id\<close> under \<^verbatim>\<open>status_code == 200\<close>: \<open>Inr (Some id)\<close> where
  it returns \<^verbatim>\<open>record_id\<close>, \<open>Inr None\<close> where it takes the \<^verbatim>\<open>else\<close> branch, \<open>Inl\<close>
  where an expression raises.
\<close>

definition first_record_id :: "json option \<Rightarrow> py_exn + json option" where
  "first_record_id js =
     (case response_json js of
        Inl e \<Rightarrow> Inl e
      | Inr result \<Rightarrow>
         (case py_get result ''success'' JNull of
            Inl e \<Rightarrow> Inl e
          | Inr success \<Rightarrow>
             (if \<not> truthy success then Inr None
              else
               (case py_get result ''result'' JNull of
                  Inl e \<Rightarrow> Inl e
                | Inr res \<Rightarrow>
                   (if \<not> truthy res then Inr None
                    else
                     (case py_item result ''result'' of
                        Inl e \<Rightarrow> Inl e
                      | Inr records \<Rightarrow>
                         (case py_len records of
                            Inl e \<Rightarrow> Inl e
                          | Inr n \<Rightarrow>
                             (if \<not> 0 < n then Inr None
                              else
                               (case py_index0 records of
                                  Inl e \<Rightarrow> Inl e
                                | Inr first \<Rightarrow>
                                   (case py_item first ''id'' of
                                      Inl e \<Rightarrow> Inl e
                                    | Inr record_id \<Rightarrow> Inr (Some record_id)))))))))))"

definition get_dns_record_id ::
  "config \<Rightarrow> env \<Rightarrow> string option \<Rightarrow> string option \<Rightarrow> string \<Rightarrow> (py_exn + json) \<times> event list" where
  "get_dns_record_id cfg env zone_id domain_name record_type =
     (let req = ListRecords (CF_API_TOKEN cfg) zone_id domain_name record_type in
      case env req of
        Raises e \<Rightarrow>
          if is_Exception e
          then (Inr JNull, [Call req, Log ERROR (Error_getting_DNS_record_ID e)])
          else (Inl e, [Call req])
      | Response status_code txt js \<Rightarrow>
          if status_code = 200 then
            (case first_record_id js of
               Inl e \<Rightarrow> (Inr JNull, [Call req, Log ERROR (Error_getting_DNS_record_ID e)])
             | Inr None \<Rightarrow>
                 (Inr JNull, [Call req, Log ERROR (No_DNS_records_found domain_name record_type)])
             | Inr (Some record_id) \<Rightarrow>
                 (Inr record_id, [Call req, Log INFO (Found_DNS_record_ID domain_name record_id)]))
          else (Inr JNull, [Call req, Log ERROR (Failed_to_get_DNS_records status_code txt)]))"

definition get_cloudflare_dns_record :: "config \<Rightarrow> env \<Rightarrow> (py_exn + json) \<times> event list" where
  "get_cloudflare_dns_record cfg env =
     (let req = GetRecord (CF_API_TOKEN cfg) (ZONE_ID cfg) (DNS_RECORD_ID cfg) in
      case env req of
        Raises e \<Rightarrow>
          if is_Exception e
          then (Inr JNull, [Call req, Log ERROR (Error_getting_Cloudflare_DNS_record e)])
          else (Inl e, [Call req])
      | Response status_code txt js \<Rightarrow>
          if status_code = 200 then
            (case response_json js of
               Inl e \<Rightarrow> (Inr JNull, [Call req, Log ERROR (Error_getting_Cloudflare_DNS_record e)])
             | Inr v \<Rightarrow> (Inr v, [Call req]))
          else (Inr JNull, [Call req, Log ERROR (Failed_to_get_DNS_record status_code txt)]))"

text \<open>The dict \<^verbatim>\<open>data\<close> that \<^verbatim>\<open>update_cloudflare_dns_record\<close> sends as the JSON body.\<close>

definition update_data :: "config \<Rightarrow> string \<Rightarrow> json" where
  "update_data cfg current_ip =
     JObj [(''type'', JStr (RECORD_TYPE cfg)),
           (''name'', env_value (DOMAIN_NAME cfg)),
           (''content'', JStr current_ip),
           (''ttl'', JNum (TTL cfg)),
           (''proxied'', JBool (PROXIED cfg))]"

definition update_request :: "config \<Rightarrow> string \<Rightarrow> request" where
  "update_request cfg current_ip =
     PutRecord (CF_API_TOKEN cfg) (ZONE_ID cfg) (DNS_RECORD_ID cfg) (update_data cfg current_ip)"

definition update_cloudflare_dns_record ::
  "config \<Rightarrow> env \<Rightarrow> string \<Rightarrow> (py_exn + bool) \<times> event list" where
  "update_cloudflare_dns_record cfg env current_ip =
     (let req = update_request cfg current_ip in
      case env req of
        Raises e \<Rightarrow>
          if is_Exception e
          then (Inr False, [Call req, Log ERROR (Error_updating_Cloudflare_DNS_record e)])
          else (Inl e, [Call req])
      | Response status_code txt js \<Rightarrow>
          if status_code = 200 then
            (case response_json js of
               Inl e \<Rightarrow> (Inr False, [Call req, Log ERROR (Error_updating_Cloudflare_DNS_record e)])
             | Inr result \<Rightarrow>
                (case py_get result ''success'' JNull of
                   Inl e \<Rightarrow>
                     (Inr False, [Call req, Log ERROR (Error_updating_Cloudflare_DNS_record e)])
                 | Inr success \<Rightarrow>
                     if truthy success
                     then (Inr True, [Call req, Log INFO (Successfully_updated current_ip)])
                     else (Inr False, [Call req, Log ERROR (API_returned_success_false result)])))
          else (Inr False, [Call req, Log ERROR (Failed_to_update_DNS_record status_code txt)]))"

section \<open>One pass of the reconciler\<close>

text \<open>\<^verbatim>\<open>dns_record.get("result", {}).get("content")\<close>\<close>

definition published_ip :: "json \<Rightarrow> py_exn + json" where
  "published_ip dns_record =
     (case py_get dns_record ''result'' (JObj []) of
        Inl e \<Rightarrow> Inl e
      | Inr res \<Rightarrow> py_get res ''content'' JNull)"

text \<open>The \<^verbatim>\<open>try\<close> block of \<^verbatim>\<open>check_and_update\<close>.\<close>

definition check_and_update_try :: "config \<Rightarrow> env \<Rightarrow> (py_exn + unit) \<times> event list" where
  "check_and_update_try cfg env =
     (case get_current_ip env of
        (Inl e, t1) \<Rightarrow> (Inl e, t1)
      | (Inr current_ip, t1) \<Rightarrow>
         (case get_cloudflare_dns_record cfg env of
            (Inl e, t2) \<Rightarrow> (Inl e, t1 @ Log INFO (Current_public_IP current_ip) # t2)
          | (Inr dns_record, t2) \<Rightarrow>
              if \<not> truthy dns_record
              then (Inr (), t1 @ Log INFO (Current_public_IP current_ip) # t2
                             @ [Log ERROR Failed_to_retrieve_Skipping_update])
              else
               (case published_ip dns_record of
                  Inl e \<Rightarrow> (Inl e, t1 @ Log INFO (Current_public_IP current_ip) # t2)
                | Inr cf_ip \<Rightarrow>
                    if JStr current_ip \<noteq> cf_ip then
                      (case update_cloudflare_dns_record cfg env current_ip of
                         (Inl e, t3) \<Rightarrow>
                           (Inl e, t1 @ Log INFO (Current_public_IP current_ip) # t2
                                    @ Log INFO (Current_Cloudflare_IP cf_ip)
                                    # Log INFO (IP_address_has_changed cf_ip current_ip) # t3)
                       | (Inr ok, t3) \<Rightarrow>
                           (Inr (), t1 @ Log INFO (Current_public_IP current_ip) # t2
                                    @ Log INFO (Current_Cloudflare_IP cf_ip)
                                    # Log INFO (IP_address_has_changed cf_ip current_ip) # t3
                                    @ [if ok then Log INFO DNS_record_updated_successfully
                                       else Log ERROR Failed_to_update]))
                    else (Inr (), t1 @ Log INFO (Current_public_IP current_ip) # t2
                                   @ [Log INFO (Current_Cloudflare_IP cf_ip),
                                      Log INFO IP_address_unchanged]))))"

text \<open>\<^verbatim>\<open>check_and_update\<close>: the block under its \<^verbatim>\<open>except Exception\<close>.\<close>

definition check_and_update :: "config \<Rightarrow> env \<Rightarrow> (py_exn + unit) \<times> event list" where
  "check_and_update cfg env =
     (case check_and_update_try cfg env of
        (Inl e, t) \<Rightarrow>
          if is_Exception e then (Inr (), t @ [Log ERROR (Error_in_check_and_update e)])
          else (Inl e, t)
      | (Inr u, t) \<Rightarrow> (Inr u, t))"

section \<open>Startup and the loop\<close>

text \<open>
  One turn of \<^verbatim>\<open>while True\<close>: the responses the pass meets, and whether the operator
  interrupts the sleep that follows it.
\<close>

record tick =
  tick_env :: env
  interrupted :: bool

text \<open>\<^verbatim>\<open>time.sleep(secs)\<close> refuses a negative length.\<close>

definition time_sleep :: "int \<Rightarrow> bool \<Rightarrow> py_exn + unit" where
  "time_sleep secs intr =
     (if secs < 0 then Inl ValueError else if intr then Inl KeyboardInterrupt else Inr ())"

text \<open>
  The loop on the turns given: \<open>None\<close> when it is still running after them, \<open>Some e\<close>
  when the exception \<open>e\<close> has left it.
\<close>

fun while_true :: "config \<Rightarrow> tick list \<Rightarrow> py_exn option \<times> event list" where
  "while_true cfg [] = (None, [])"
| "while_true cfg (t # ts) =
     (case check_and_update cfg (tick_env t) of
        (Inl e, tr) \<Rightarrow> (Some e, tr)
      | (Inr u, tr) \<Rightarrow>
         (case time_sleep (CHECK_INTERVAL cfg) (interrupted t) of
            Inl e \<Rightarrow> (Some e, tr)
          | Inr u \<Rightarrow> apsnd (\<lambda>tr'. tr @ Sleep (CHECK_INTERVAL cfg) # tr') (while_true cfg ts)))"

datatype outcome = Returned_at_startup | Looping | Loop_ended | Uncaught py_exn

text \<open>The \<^verbatim>\<open>try\<close> statement around the loop.\<close>

definition run_loop :: "config \<Rightarrow> tick list \<Rightarrow> outcome \<times> event list" where
  "run_loop cfg ticks =
     (case while_true cfg ticks of
        (None, tr) \<Rightarrow> (Looping, tr)
      | (Some e, tr) \<Rightarrow>
          if e = KeyboardInterrupt then (Loop_ended, tr @ [Log INFO Script_interrupted])
          else if is_Exception e then (Loop_ended, tr @ [Log ERROR (Unexpected_error e)])
          else (Uncaught e, tr))"

definition missing_vars :: "config \<Rightarrow> string list" where
  "missing_vars cfg =
     (if env_truthy (CF_API_TOKEN cfg) then [] else [''CLOUDFLARE_API_TOKEN''])
     @ (if env_truthy (ZONE_ID cfg) then [] else [''ZONE_ID''])"

text \<open>
  \<^verbatim>\<open>main\<close>, with the responses of the startup and the turns of the loop.
\<close>

definition main :: "config \<Rightarrow> env \<Rightarrow> tick list \<Rightarrow> outcome \<times> event list" where
  "main cfg env ticks =
     (if missing_vars cfg \<noteq> [] then
        (Returned_at_startup,
         [Log INFO Starting, Log ERROR (Missing_required_variables (missing_vars cfg)),
          Log ERROR Please_check_env_file])
      else if \<not> truthy (DNS_RECORD_ID cfg) then
        (if \<not> env_truthy (DOMAIN_NAME cfg) then
           (Returned_at_startup, [Log INFO Starting, Log ERROR Both_missing])
         else
           (case get_dns_record_id cfg env (ZONE_ID cfg) (DOMAIN_NAME cfg) (RECORD_TYPE cfg) of
              (Inl e, t1) \<Rightarrow>
                (Uncaught e, Log INFO Starting # Log INFO (Attempting_to_find (DOMAIN_NAME cfg)) # t1)
            | (Inr record_id, t1) \<Rightarrow>
                if \<not> truthy record_id then
                  (Returned_at_startup,
                   Log INFO Starting # Log INFO (Attempting_to_find (DOMAIN_NAME cfg)) # t1
                   @ [Log ERROR (Could_not_find (DOMAIN_NAME cfg))])
                else
                  apsnd (\<lambda>tr. Log INFO Starting # Log INFO (Attempting_to_find (DOMAIN_NAME cfg)) # t1
                               @ Log INFO (Using_DNS_record_ID record_id)
                               # Log INFO (Will_check_every (CHECK_INTERVAL cfg)) # tr)
                        (run_loop (cfg\<lparr>DNS_RECORD_ID := record_id\<rparr>) ticks)))
      else
        apsnd (\<lambda>tr. Log INFO Starting # Log INFO (Will_check_every (CHECK_INTERVAL cfg)) # tr)
              (run_loop cfg ticks))"


section \<open>Concrete inputs\<close>

text \<open>An environment that answers each kind of call with one fixed result.\<close>

definition responses :: "http_result \<Rightarrow> http_result \<Rightarrow> http_result \<Rightarrow> http_result \<Rightarrow> env" where
  "responses echo listing reading updating =
     (\<lambda>r. case r of
        GetIpify \<Rightarrow> echo
      | ListRecords tok z n t \<Rightarrow> listing
      | GetRecord tok z rid \<Rightarrow> reading
      | PutRecord tok z rid b \<Rightarrow> updating)"

text \<open>The configuration of the scenario: a record identifier and no domain name.\<close>

definition scenario_config :: config where
  "scenario_config =
     \<lparr>CF_API_TOKEN = Some ''token'', ZONE_ID = Some ''zone'', DNS_RECORD_ID = JStr ''abc123'',
      DOMAIN_NAME = None, RECORD_TYPE = ''A'', TTL = 3600, PROXIED = False,
      CHECK_INTERVAL = 300\<rparr>"

section \<open>The calls of one pass\<close>

lemma calls_append: "calls (xs @ ys) = calls xs @ calls ys"
  by (induction xs rule: calls.induct) simp_all

lemma is_Exception_iff: "is_Exception e \<longleftrightarrow> e \<noteq> KeyboardInterrupt"
  by (cases e) simp_all

lemma get_current_ip_ok:
  "env GetIpify = Response 200 ip js \<Longrightarrow> get_current_ip env = (Inr ip, [Call GetIpify])"
  by (simp add: get_current_ip_def)

lemma get_current_ip_calls: "calls (snd (get_current_ip env)) = [GetIpify]"
  by (simp add: get_current_ip_def split: http_result.splits)

lemma get_current_ip_failed:
  "env GetIpify = Raises e \<or> (env GetIpify = Response st tx js \<and> st \<noteq> 200)
   \<Longrightarrow> \<exists>e'. fst (get_current_ip env) = Inl e'"
  by (auto simp: get_current_ip_def)

lemma get_record_ok:
  "env (GetRecord (CF_API_TOKEN cfg) (ZONE_ID cfg) (DNS_RECORD_ID cfg)) = Response 200 tx (Some v)
   \<Longrightarrow> get_cloudflare_dns_record cfg env =
        (Inr v, [Call (GetRecord (CF_API_TOKEN cfg) (ZONE_ID cfg) (DNS_RECORD_ID cfg))])"
  by (simp add: get_cloudflare_dns_record_def response_json_def)

lemma get_record_calls:
  "calls (snd (get_cloudflare_dns_record cfg env)) =
     [GetRecord (CF_API_TOKEN cfg) (ZONE_ID cfg) (DNS_RECORD_ID cfg)]"
  by (simp add: get_cloudflare_dns_record_def Let_def split: http_result.splits sum.splits)

lemma calls_of_update:
  "calls (snd (update_cloudflare_dns_record cfg env ip)) = [update_request cfg ip]"
  by (simp add: update_cloudflare_dns_record_def Let_def
      split: http_result.splits sum.splits)

lemma pass_calls_changed:
  assumes "env GetIpify = Response 200 ip js"
    and "env (GetRecord (CF_API_TOKEN cfg) (ZONE_ID cfg) (DNS_RECORD_ID cfg))
           = Response 200 tx (Some dns_record)"
    and "truthy dns_record"
    and "published_ip dns_record = Inr cf_ip"
    and "JStr ip \<noteq> cf_ip"
  shows "calls (snd (check_and_update cfg env)) =
           [GetIpify, GetRecord (CF_API_TOKEN cfg) (ZONE_ID cfg) (DNS_RECORD_ID cfg),
            update_request cfg ip]"
proof -
  obtain r t3 where u: "update_cloudflare_dns_record cfg env ip = (r, t3)"
    by (cases "update_cloudflare_dns_record cfg env ip")
  have c3: "calls t3 = [update_request cfg ip]"
    using calls_of_update [of cfg env ip] u by simp
  show ?thesis
    using assms u c3
    by (cases r)
       (simp_all add: check_and_update_def check_and_update_try_def get_current_ip_ok
          get_record_ok calls_append)
qed

lemma pass_unchanged:
  assumes "env GetIpify = Response 200 ip js"
    and "env (GetRecord (CF_API_TOKEN cfg) (ZONE_ID cfg) (DNS_RECORD_ID cfg))
           = Response 200 tx (Some dns_record)"
    and "truthy dns_record"
    and "published_ip dns_record = Inr (JStr ip)"
  shows "check_and_update cfg env =
           (Inr (), [Call GetIpify, Log INFO (Current_public_IP ip),
                     Call (GetRecord (CF_API_TOKEN cfg) (ZONE_ID cfg) (DNS_RECORD_ID cfg)),
                     Log INFO (Current_Cloudflare_IP (JStr ip)), Log INFO IP_address_unchanged])"
  using assms
  by (simp add: check_and_update_def check_and_update_try_def get_current_ip_ok get_record_ok)

lemma pass_resolve_failed:
  assumes "fst (get_current_ip env) = Inl e"
  shows "calls (snd (check_and_update cfg env)) = [GetIpify]"
proof -
  obtain t where g: "get_current_ip env = (Inl e, t)"
    using assms by (cases "get_current_ip env") simp
  have "calls t = [GetIpify]"
    using get_current_ip_calls [of env] g by simp
  then show ?thesis
    using g by (simp add: check_and_update_def check_and_update_try_def calls_append)
qed

lemma pass_calls_prefix:
  "\<exists>rest. calls (snd (check_and_update cfg env)) = GetIpify # rest"
proof -
  obtain r t where g: "get_current_ip env = (r, t)"
    by (cases "get_current_ip env")
  have c: "calls t = [GetIpify]"
    using get_current_ip_calls [of env] g by simp
  show ?thesis
    using g c
    by (auto simp: check_and_update_def check_and_update_try_def calls_append
        split: sum.splits prod.splits if_splits)
qed

lemma pass_read_not_truthy:
  assumes "get_cloudflare_dns_record cfg env = (r, t2)"
    and "\<forall>v. r = Inr v \<longrightarrow> \<not> truthy v"
  shows "update_calls (snd (check_and_update cfg env)) = []"
proof -
  obtain r1 t1 where g: "get_current_ip env = (r1, t1)"
    by (cases "get_current_ip env")
  have c1: "calls t1 = [GetIpify]"
    using get_current_ip_calls [of env] g by simp
  have c2: "calls t2 = [GetRecord (CF_API_TOKEN cfg) (ZONE_ID cfg) (DNS_RECORD_ID cfg)]"
    using get_record_calls [of cfg env] assms(1) by simp
  show ?thesis
    using g c1 c2 assms
    by (cases r1; cases r)
       (simp_all add: check_and_update_def check_and_update_try_def calls_append
          update_calls_def)
qed


lemma discovery_calls:
  "calls (snd (get_dns_record_id cfg env z n t)) = [ListRecords (CF_API_TOKEN cfg) z n t]"
  by (simp add: get_dns_record_id_def Let_def
      split: http_result.splits sum.splits option.splits)

lemma snd_apsnd: "snd (apsnd f p) = f (snd p)"
  by (cases p) simp




















lemma published_ip_string_truthy: "published_ip d = Inr (JStr s) \<Longrightarrow> truthy d"
  by (cases d) (auto simp: published_ip_def)

lemma main_without_domain:
  assumes "\<not> truthy (DNS_RECORD_ID cfg)" and "\<not> env_truthy (DOMAIN_NAME cfg)"
  shows "fst (main cfg env ticks) = Returned_at_startup \<and> calls (snd (main cfg env ticks)) = []"
  using assms by (simp add: main_def)

lemma main_discovery_failed:
  assumes "\<not> truthy (DNS_RECORD_ID cfg)"
    and "get_dns_record_id cfg env (ZONE_ID cfg) (DOMAIN_NAME cfg) (RECORD_TYPE cfg) = (Inr rid, t1)"
    and "\<not> truthy rid"
  shows "fst (main cfg env ticks) = Returned_at_startup
       \<and> (calls (snd (main cfg env ticks)) = []
          \<or> calls (snd (main cfg env ticks)) =
              [ListRecords (CF_API_TOKEN cfg) (ZONE_ID cfg) (DOMAIN_NAME cfg) (RECORD_TYPE cfg)])"
proof -
  have "calls t1 = [ListRecords (CF_API_TOKEN cfg) (ZONE_ID cfg) (DOMAIN_NAME cfg) (RECORD_TYPE cfg)]"
    using discovery_calls [of cfg env "ZONE_ID cfg" "DOMAIN_NAME cfg" "RECORD_TYPE cfg"] assms(2)
    by simp
  then show ?thesis
    using assms by (simp add: main_def calls_append)
qed

lemma main_discovery_called:
  assumes "\<not> truthy (DNS_RECORD_ID cfg)" and "missing_vars cfg = []"
    and "env_truthy (DOMAIN_NAME cfg)"
  shows "\<exists>rest. calls (snd (main cfg env ticks)) =
           ListRecords (CF_API_TOKEN cfg) (ZONE_ID cfg) (DOMAIN_NAME cfg) (RECORD_TYPE cfg) # rest"
proof -
  obtain r t1 where d:
    "get_dns_record_id cfg env (ZONE_ID cfg) (DOMAIN_NAME cfg) (RECORD_TYPE cfg) = (r, t1)"
    by (cases "get_dns_record_id cfg env (ZONE_ID cfg) (DOMAIN_NAME cfg) (RECORD_TYPE cfg)")
  have c: "calls t1 =
      [ListRecords (CF_API_TOKEN cfg) (ZONE_ID cfg) (DOMAIN_NAME cfg) (RECORD_TYPE cfg)]"
    using discovery_calls [of cfg env "ZONE_ID cfg" "DOMAIN_NAME cfg" "RECORD_TYPE cfg"] d
    by simp
  show ?thesis
    using assms d c
    by (cases r) (simp_all add: main_def calls_append snd_apsnd)
qed



section \<open>The claims\<close>

text \<open>
  C1. In a pass where the IP is resolved, the record is read and the published IP taken
  from it differs from the resolved one, exactly one update call is issued; its body has
  the resolved IP as content and the type, name, ttl and proxied flag of the configuration.
\<close>

theorem differing_ip_issues_one_update:
  assumes "env GetIpify = Response 200 ip js"
    and "env (GetRecord (CF_API_TOKEN cfg) (ZONE_ID cfg) (DNS_RECORD_ID cfg))
           = Response 200 tx (Some dns_record)"
    and "truthy dns_record"
    and "published_ip dns_record = Inr cf_ip"
    and "JStr ip \<noteq> cf_ip"
  shows "update_calls (snd (check_and_update cfg env)) =
           [PutRecord (CF_API_TOKEN cfg) (ZONE_ID cfg) (DNS_RECORD_ID cfg)
              (JObj [(''type'', JStr (RECORD_TYPE cfg)),
                     (''name'', env_value (DOMAIN_NAME cfg)),
                     (''content'', JStr ip),
                     (''ttl'', JNum (TTL cfg)),
                     (''proxied'', JBool (PROXIED cfg))])]"
  using pass_calls_changed [OF assms]
  by (simp add: update_calls_def update_request_def update_data_def)

theorem differing_ip_issues_one_update_witness:
  "update_calls (snd (check_and_update
      (scenario_config\<lparr>DOMAIN_NAME := Some ''home.example.com'', TTL := 120\<rparr>)
      (responses (Response 200 ''5.6.7.8'' None) (Raises (RequestException ''unused''))
         (Response 200 [] (Some (JObj [(''success'', JBool True),
            (''result'', JObj [(''id'', JStr ''abc123''), (''content'', JStr ''5.6.7.7'')])])))
         (Response 500 ''busy'' None)))) =
     [PutRecord (Some ''token'') (Some ''zone'') (JStr ''abc123'')
        (JObj [(''type'', JStr ''A''), (''name'', JStr ''home.example.com''),
               (''content'', JStr ''5.6.7.8''), (''ttl'', JNum 120),
               (''proxied'', JBool False)])]"
  using differing_ip_issues_one_update
    [of "responses (Response 200 ''5.6.7.8'' None) (Raises (RequestException ''unused''))
         (Response 200 [] (Some (JObj [(''success'', JBool True),
            (''result'', JObj [(''id'', JStr ''abc123''), (''content'', JStr ''5.6.7.7'')])])))
         (Response 500 ''busy'' None)"
        "''5.6.7.8''" None
        "scenario_config\<lparr>DOMAIN_NAME := Some ''home.example.com'', TTL := 120\<rparr>"
        "[]"
        "JObj [(''success'', JBool True),
            (''result'', JObj [(''id'', JStr ''abc123''), (''content'', JStr ''5.6.7.7'')])]"
        "JStr ''5.6.7.7''"]
  by (simp add: responses_def scenario_config_def published_ip_def env_value_def)

text \<open>
  C2. In a pass where the resolved IP equals the published IP taken from the read record,
  no update call is issued: the pass makes the echo call and the read call, logs that the
  address is unchanged and ends.
\<close>

theorem equal_ip_issues_no_update:
  assumes "env GetIpify = Response 200 ip js"
    and "env (GetRecord (CF_API_TOKEN cfg) (ZONE_ID cfg) (DNS_RECORD_ID cfg))
           = Response 200 tx (Some dns_record)"
    and "truthy dns_record"
    and "published_ip dns_record = Inr cf_ip"
    and "JStr ip = cf_ip"
  shows "update_calls (snd (check_and_update cfg env)) = []
       \<and> calls (snd (check_and_update cfg env)) =
           [GetIpify, GetRecord (CF_API_TOKEN cfg) (ZONE_ID cfg) (DNS_RECORD_ID cfg)]
       \<and> last (snd (check_and_update cfg env)) = Log INFO IP_address_unchanged
       \<and> fst (check_and_update cfg env) = Inr ()"
proof -
  have "published_ip dns_record = Inr (JStr ip)"
    using assms(4,5) by simp
  from pass_unchanged [OF assms(1,2,3) this] show ?thesis
    by (simp add: update_calls_def)
qed

theorem equal_ip_issues_no_update_witness:
  "update_calls (snd (check_and_update scenario_config
      (responses (Response 200 ''1.2.3.4'' None) (Raises (RequestException ''unused''))
         (Response 200 [] (Some (JObj [(''success'', JBool True),
            (''result'', JObj [(''content'', JStr ''1.2.3.4'')])])))
         (Response 200 [] (Some (JObj [(''success'', JBool True)])))))) = []"
  using equal_ip_issues_no_update
    [of "responses (Response 200 ''1.2.3.4'' None) (Raises (RequestException ''unused''))
         (Response 200 [] (Some (JObj [(''success'', JBool True),
            (''result'', JObj [(''content'', JStr ''1.2.3.4'')])])))
         (Response 200 [] (Some (JObj [(''success'', JBool True)])))"
        "''1.2.3.4''" None scenario_config "[]"
        "JObj [(''success'', JBool True), (''result'', JObj [(''content'', JStr ''1.2.3.4'')])]"
        "JStr ''1.2.3.4''"]
  by (simp add: responses_def scenario_config_def published_ip_def)

text \<open>
  C3. In a pass where the IP echo call fails, by an exception of the HTTP library or by a
  status other than 200, the echo call is the only call of the pass: the record is neither
  read nor updated.
\<close>

theorem echo_failure_no_read_no_update:
  assumes "env GetIpify = Raises e \<or> (env GetIpify = Response st tx js \<and> st \<noteq> 200)"
  shows "calls (snd (check_and_update cfg env)) = [GetIpify]
       \<and> read_calls (snd (check_and_update cfg env)) = []
       \<and> update_calls (snd (check_and_update cfg env)) = []"
proof -
  obtain e' where "fst (get_current_ip env) = Inl e'"
    using assms get_current_ip_failed [of env e st tx js] by blast
  from pass_resolve_failed [OF this] show ?thesis
    by (simp add: read_calls_def update_calls_def)
qed

theorem echo_failure_no_read_no_update_witness:
  "calls (snd (check_and_update scenario_config
      (responses (Raises (RequestException ''timed out''))
         (Raises (RequestException ''unused''))
         (Response 200 [] (Some (JObj [(''result'', JObj [(''content'', JStr ''1.2.3.3'')])])))
         (Response 200 [] (Some (JObj [(''success'', JBool True)])))))) = [GetIpify]
   \<and> calls (snd (check_and_update scenario_config
      (responses (Response 503 ''unavailable'' None)
         (Raises (RequestException ''unused''))
         (Response 200 [] (Some (JObj [(''result'', JObj [(''content'', JStr ''1.2.3.3'')])])))
         (Response 200 [] (Some (JObj [(''success'', JBool True)])))))) = [GetIpify]"
  using echo_failure_no_read_no_update
    [of "responses (Raises (RequestException ''timed out''))
         (Raises (RequestException ''unused''))
         (Response 200 [] (Some (JObj [(''result'', JObj [(''content'', JStr ''1.2.3.3'')])])))
         (Response 200 [] (Some (JObj [(''success'', JBool True)])))"
        "RequestException ''timed out''" 0 "[]" None scenario_config]
    echo_failure_no_read_no_update
    [of "responses (Response 503 ''unavailable'' None)
         (Raises (RequestException ''unused''))
         (Response 200 [] (Some (JObj [(''result'', JObj [(''content'', JStr ''1.2.3.3'')])])))
         (Response 200 [] (Some (JObj [(''success'', JBool True)])))"
        KeyboardInterrupt 503 "''unavailable''" None scenario_config]
  by (simp add: responses_def)

text \<open>
  C4. In a pass where the read call fails (the HTTP library raises, the status is not 200,
  or the body is not JSON), the record client returns \<open>None\<close> (or lets the interrupt
  through) and no update call is issued.
\<close>

theorem read_failure_no_update:
  assumes "env (GetRecord (CF_API_TOKEN cfg) (ZONE_ID cfg) (DNS_RECORD_ID cfg)) = Raises e
         \<or> (env (GetRecord (CF_API_TOKEN cfg) (ZONE_ID cfg) (DNS_RECORD_ID cfg))
               = Response st tx js \<and> (st \<noteq> 200 \<or> js = None))"
  shows "fst (get_cloudflare_dns_record cfg env) =
           (if env (GetRecord (CF_API_TOKEN cfg) (ZONE_ID cfg) (DNS_RECORD_ID cfg))
                 = Raises KeyboardInterrupt
            then Inl KeyboardInterrupt else Inr JNull)
       \<and> update_calls (snd (check_and_update cfg env)) = []"
proof -
  have r: "fst (get_cloudflare_dns_record cfg env) =
           (if env (GetRecord (CF_API_TOKEN cfg) (ZONE_ID cfg) (DNS_RECORD_ID cfg))
                 = Raises KeyboardInterrupt
            then Inl KeyboardInterrupt else Inr JNull)"
    using assms
    by (auto simp: get_cloudflare_dns_record_def response_json_def is_Exception_iff Let_def)
  obtain r0 t2 where g: "get_cloudflare_dns_record cfg env = (r0, t2)"
    by (cases "get_cloudflare_dns_record cfg env")
  have "\<forall>v. r0 = Inr v \<longrightarrow> \<not> truthy v"
    using r g by (auto split: if_splits)
  from pass_read_not_truthy [OF g this] r show ?thesis
    by simp
qed

theorem read_failure_no_update_witness:
  "update_calls (snd (check_and_update scenario_config
      (responses (Response 200 ''1.2.3.4'' None) (Raises (RequestException ''unused''))
         (Response 404 ''not found'' (Some (JObj [(''success'', JBool False)])))
         (Response 200 [] (Some (JObj [(''success'', JBool True)])))))) = []
   \<and> update_calls (snd (check_and_update scenario_config
      (responses (Response 200 ''1.2.3.4'' None) (Raises (RequestException ''unused''))
         (Raises (RequestException ''connection reset''))
         (Response 200 [] (Some (JObj [(''success'', JBool True)])))))) = []"
  using read_failure_no_update
    [of "responses (Response 200 ''1.2.3.4'' None) (Raises (RequestException ''unused''))
         (Response 404 ''not found'' (Some (JObj [(''success'', JBool False)])))
         (Response 200 [] (Some (JObj [(''success'', JBool True)])))"
        scenario_config KeyboardInterrupt 404 "''not found''"
        "Some (JObj [(''success'', JBool False)])"]
    read_failure_no_update
    [of "responses (Response 200 ''1.2.3.4'' None) (Raises (RequestException ''unused''))
         (Raises (RequestException ''connection reset''))
         (Response 200 [] (Some (JObj [(''success'', JBool True)])))"
        scenario_config "RequestException ''connection reset''" 0 "[]" None]
  by (simp add: responses_def)

text \<open>
  C5. Startup with no record identifier configured. With the required variables set and
  a domain name, the first call of the run is the discovery for that name and type. With
  no domain name, or when the discovery returns no identifier, \<^verbatim>\<open>main\<close> returns before
  the loop: no pass is begun, and nothing is read or updated, whatever turns were to come.
\<close>

theorem startup_without_record_id:
  assumes "\<not> truthy (DNS_RECORD_ID cfg)"
  shows "(missing_vars cfg = [] \<and> env_truthy (DOMAIN_NAME cfg)
          \<longrightarrow> (\<exists>rest. calls (snd (main cfg env ticks)) =
                 ListRecords (CF_API_TOKEN cfg) (ZONE_ID cfg) (DOMAIN_NAME cfg) (RECORD_TYPE cfg)
                 # rest))
       \<and> (\<not> env_truthy (DOMAIN_NAME cfg)
            \<or> (\<exists>rid t1. get_dns_record_id cfg env (ZONE_ID cfg) (DOMAIN_NAME cfg)
                           (RECORD_TYPE cfg) = (Inr rid, t1) \<and> \<not> truthy rid)
          \<longrightarrow> fst (main cfg env ticks) = Returned_at_startup
              \<and> passes (snd (main cfg env ticks)) = 0
              \<and> read_calls (snd (main cfg env ticks)) = []
              \<and> update_calls (snd (main cfg env ticks)) = [])"
proof (intro conjI impI)
  assume "missing_vars cfg = [] \<and> env_truthy (DOMAIN_NAME cfg)"
  then show "\<exists>rest. calls (snd (main cfg env ticks)) =
      ListRecords (CF_API_TOKEN cfg) (ZONE_ID cfg) (DOMAIN_NAME cfg) (RECORD_TYPE cfg) # rest"
    using main_discovery_called [OF assms] by blast
next
  assume h: "\<not> env_truthy (DOMAIN_NAME cfg)
     \<or> (\<exists>rid t1. get_dns_record_id cfg env (ZONE_ID cfg) (DOMAIN_NAME cfg)
                           (RECORD_TYPE cfg) = (Inr rid, t1) \<and> \<not> truthy rid)"
  have r: "fst (main cfg env ticks) = Returned_at_startup
       \<and> (calls (snd (main cfg env ticks)) = []
          \<or> calls (snd (main cfg env ticks)) =
              [ListRecords (CF_API_TOKEN cfg) (ZONE_ID cfg) (DOMAIN_NAME cfg) (RECORD_TYPE cfg)])"
    using h main_without_domain [OF assms, of env ticks] main_discovery_failed [OF assms, of env]
    by blast
  from r show "fst (main cfg env ticks) = Returned_at_startup"
    by simp
  from r show "passes (snd (main cfg env ticks)) = 0"
    by (auto simp: passes_def)
  from r show "read_calls (snd (main cfg env ticks)) = []"
    by (auto simp: read_calls_def)
  from r show "update_calls (snd (main cfg env ticks)) = []"
    by (auto simp: update_calls_def)
qed


theorem startup_without_record_id_witness:
  "fst (main (scenario_config\<lparr>DNS_RECORD_ID := JNull\<rparr>)
      (responses (Response 200 ''1.2.3.4'' None) (Raises (RequestException ''unused''))
         (Raises (RequestException ''unused'')) (Raises (RequestException ''unused'')))
      [\<lparr>tick_env = responses (Response 200 ''1.2.3.4'' None)
          (Raises (RequestException ''unused'')) (Raises (RequestException ''unused''))
          (Raises (RequestException ''unused'')), interrupted = False\<rparr>]) = Returned_at_startup
 \<and> passes (snd (main (scenario_config\<lparr>DNS_RECORD_ID := JNull\<rparr>)
      (responses (Response 200 ''1.2.3.4'' None) (Raises (RequestException ''unused''))
         (Raises (RequestException ''unused'')) (Raises (RequestException ''unused'')))
      [\<lparr>tick_env = responses (Response 200 ''1.2.3.4'' None)
          (Raises (RequestException ''unused'')) (Raises (RequestException ''unused''))
          (Raises (RequestException ''unused'')), interrupted = False\<rparr>])) = 0
 \<and> fst (main (scenario_config\<lparr>DNS_RECORD_ID := JNull, DOMAIN_NAME := Some ''x.example.com''\<rparr>)
      (responses (Response 200 ''1.2.3.4'' None)
         (Response 200 [] (Some (JObj [(''success'', JBool True), (''result'', JArr [])])))
         (Raises (RequestException ''unused'')) (Raises (RequestException ''unused'')))
      [\<lparr>tick_env = responses (Response 200 ''1.2.3.4'' None)
          (Raises (RequestException ''unused'')) (Raises (RequestException ''unused''))
          (Raises (RequestException ''unused'')), interrupted = False\<rparr>]) = Returned_at_startup
 \<and> passes (snd (main
      (scenario_config\<lparr>DNS_RECORD_ID := JNull, DOMAIN_NAME := Some ''x.example.com''\<rparr>)
      (responses (Response 200 ''1.2.3.4'' None)
         (Response 200 [] (Some (JObj [(''success'', JBool True), (''result'', JArr [])])))
         (Raises (RequestException ''unused'')) (Raises (RequestException ''unused'')))
      [\<lparr>tick_env = responses (Response 200 ''1.2.3.4'' None)
          (Raises (RequestException ''unused'')) (Raises (RequestException ''unused''))
          (Raises (RequestException ''unused'')), interrupted = False\<rparr>])) = 0"
proof -
  let ?ticks = "[\<lparr>tick_env = responses (Response 200 ''1.2.3.4'' None)
          (Raises (RequestException ''unused'')) (Raises (RequestException ''unused''))
          (Raises (RequestException ''unused'')), interrupted = False\<rparr>]"
  let ?cfg1 = "scenario_config\<lparr>DNS_RECORD_ID := JNull\<rparr>"
  let ?env1 = "responses (Response 200 ''1.2.3.4'' None) (Raises (RequestException ''unused''))
         (Raises (RequestException ''unused'')) (Raises (RequestException ''unused''))"
  let ?cfg2 = "scenario_config\<lparr>DNS_RECORD_ID := JNull, DOMAIN_NAME := Some ''x.example.com''\<rparr>"
  let ?env2 = "responses (Response 200 ''1.2.3.4'' None)
         (Response 200 [] (Some (JObj [(''success'', JBool True), (''result'', JArr [])])))
         (Raises (RequestException ''unused'')) (Raises (RequestException ''unused''))"
  have n1: "\<not> truthy (DNS_RECORD_ID ?cfg1)"
    by simp
  have h1: "\<not> env_truthy (DOMAIN_NAME ?cfg1)
     \<or> (\<exists>rid t1. get_dns_record_id ?cfg1 ?env1 (ZONE_ID ?cfg1) (DOMAIN_NAME ?cfg1)
                           (RECORD_TYPE ?cfg1) = (Inr rid, t1) \<and> \<not> truthy rid)"
    by (simp add: scenario_config_def env_truthy_def)
  have n2: "\<not> truthy (DNS_RECORD_ID ?cfg2)"
    by simp
  have "get_dns_record_id ?cfg2 ?env2 (ZONE_ID ?cfg2) (DOMAIN_NAME ?cfg2) (RECORD_TYPE ?cfg2)
      = (Inr JNull, [Call (ListRecords (Some ''token'') (Some ''zone'') (Some ''x.example.com'') ''A''),
                     Log ERROR (No_DNS_records_found (Some ''x.example.com'') ''A'')])"
    by (simp add: get_dns_record_id_def first_record_id_def response_json_def responses_def
        scenario_config_def)
  then have h2: "\<not> env_truthy (DOMAIN_NAME ?cfg2)
     \<or> (\<exists>rid t1. get_dns_record_id ?cfg2 ?env2 (ZONE_ID ?cfg2) (DOMAIN_NAME ?cfg2)
                           (RECORD_TYPE ?cfg2) = (Inr rid, t1) \<and> \<not> truthy rid)"
    by simp
  note a = startup_without_record_id
    [where cfg = ?cfg1 and env = ?env1 and ticks = ?ticks, OF n1, THEN conjunct2, THEN mp, OF h1]
  note b = startup_without_record_id
    [where cfg = ?cfg2 and env = ?env2 and ticks = ?ticks, OF n2, THEN conjunct2, THEN mp, OF h2]
  from a b show ?thesis
    by simp
qed

text \<open>
  C6. The discovery, for a zone, a domain name and a record type: when the list call
  returns status 200 with a body that reports success and whose result list starts with a
  record, it returns that first record's identifier; when the result list is empty, the
  body does not report success, the status is not 200 or the HTTP library raises, it
  returns \<open>None\<close> and logs an error.
\<close>

theorem discovery_returns_first_id:
  "(env (ListRecords (CF_API_TOKEN cfg) z n t) = Response 200 tx (Some (JObj kvs))
      \<and> map_of kvs ''success'' = Some s \<and> truthy s
      \<and> map_of kvs ''result'' = Some (JArr (JObj r # rs)) \<and> map_of r ''id'' = Some rid
    \<longrightarrow> get_dns_record_id cfg env z n t =
          (Inr rid, [Call (ListRecords (CF_API_TOKEN cfg) z n t),
                     Log INFO (Found_DNS_record_ID n rid)]))
 \<and> (env (ListRecords (CF_API_TOKEN cfg) z n t) = Response 200 tx (Some (JObj kvs))
      \<and> map_of kvs ''result'' = Some (JArr [])
    \<longrightarrow> get_dns_record_id cfg env z n t =
          (Inr JNull, [Call (ListRecords (CF_API_TOKEN cfg) z n t),
                       Log ERROR (No_DNS_records_found n t)]))
 \<and> (env (ListRecords (CF_API_TOKEN cfg) z n t) = Response 200 tx (Some (JObj kvs))
      \<and> (map_of kvs ''success'' = None \<or> map_of kvs ''success'' = Some (JBool False))
    \<longrightarrow> get_dns_record_id cfg env z n t =
          (Inr JNull, [Call (ListRecords (CF_API_TOKEN cfg) z n t),
                       Log ERROR (No_DNS_records_found n t)]))
 \<and> (env (ListRecords (CF_API_TOKEN cfg) z n t) = Response st tx js \<and> st \<noteq> 200
    \<longrightarrow> get_dns_record_id cfg env z n t =
          (Inr JNull, [Call (ListRecords (CF_API_TOKEN cfg) z n t),
                       Log ERROR (Failed_to_get_DNS_records st tx)]))
 \<and> (env (ListRecords (CF_API_TOKEN cfg) z n t) = Raises e \<and> is_Exception e
    \<longrightarrow> get_dns_record_id cfg env z n t =
          (Inr JNull, [Call (ListRecords (CF_API_TOKEN cfg) z n t),
                       Log ERROR (Error_getting_DNS_record_ID e)]))"
  by (auto simp: get_dns_record_id_def first_record_id_def response_json_def Let_def
      split: option.splits)

theorem discovery_returns_first_id_witness:
  "fst (get_dns_record_id scenario_config
      (responses (Raises (RequestException ''unused''))
         (Response 200 [] (Some (JObj [(''success'', JBool True),
            (''result'', JArr [JObj [(''id'', JStr ''r1''), (''name'', JStr ''x.example.com'')],
                               JObj [(''id'', JStr ''r2'')]])])))
         (Raises (RequestException ''unused'')) (Raises (RequestException ''unused'')))
      (Some ''zone'') (Some ''x.example.com'') ''A'') = Inr (JStr ''r1'')
 \<and> fst (get_dns_record_id scenario_config
      (responses (Raises (RequestException ''unused''))
         (Response 200 [] (Some (JObj [(''success'', JBool True), (''result'', JArr [])])))
         (Raises (RequestException ''unused'')) (Raises (RequestException ''unused'')))
      (Some ''zone'') (Some ''x.example.com'') ''A'') = Inr JNull
 \<and> fst (get_dns_record_id scenario_config
      (responses (Raises (RequestException ''unused''))
         (Response 200 [] (Some (JObj [(''success'', JBool False),
            (''result'', JArr [JObj [(''id'', JStr ''r1'')]])])))
         (Raises (RequestException ''unused'')) (Raises (RequestException ''unused'')))
      (Some ''zone'') (Some ''x.example.com'') ''A'') = Inr JNull
 \<and> fst (get_dns_record_id scenario_config
      (responses (Raises (RequestException ''unused''))
         (Response 403 ''forbidden'' None)
         (Raises (RequestException ''unused'')) (Raises (RequestException ''unused'')))
      (Some ''zone'') (Some ''x.example.com'') ''A'') = Inr JNull
 \<and> fst (get_dns_record_id scenario_config
      (responses (Raises (RequestException ''unused''))
         (Raises (RequestException ''timed out''))
         (Raises (RequestException ''unused'')) (Raises (RequestException ''unused'')))
      (Some ''zone'') (Some ''x.example.com'') ''A'') = Inr JNull"
  using
    discovery_returns_first_id
      [where cfg = scenario_config and z = "Some ''zone''" and n = "Some ''x.example.com''"
         and t = "''A''" and tx = "[]" and s = "JBool True"
         and kvs = "[(''success'', JBool True),
            (''result'', JArr [JObj [(''id'', JStr ''r1''), (''name'', JStr ''x.example.com'')],
                               JObj [(''id'', JStr ''r2'')]])]"
         and r = "[(''id'', JStr ''r1''), (''name'', JStr ''x.example.com'')]"
         and rs = "[JObj [(''id'', JStr ''r2'')]]" and rid = "JStr ''r1''"
         and env = "responses (Raises (RequestException ''unused''))
           (Response 200 [] (Some (JObj [(''success'', JBool True),
            (''result'', JArr [JObj [(''id'', JStr ''r1''), (''name'', JStr ''x.example.com'')],
                               JObj [(''id'', JStr ''r2'')]])])))
           (Raises (RequestException ''unused'')) (Raises (RequestException ''unused''))"]
    discovery_returns_first_id
      [where cfg = scenario_config and z = "Some ''zone''" and n = "Some ''x.example.com''"
         and t = "''A''" and tx = "[]"
         and kvs = "[(''success'', JBool True), (''result'', JArr [])]"
         and env = "responses (Raises (RequestException ''unused''))
           (Response 200 [] (Some (JObj [(''success'', JBool True), (''result'', JArr [])])))
           (Raises (RequestException ''unused'')) (Raises (RequestException ''unused''))"]
    discovery_returns_first_id
      [where cfg = scenario_config and z = "Some ''zone''" and n = "Some ''x.example.com''"
         and t = "''A''" and tx = "[]"
         and kvs = "[(''success'', JBool False),
            (''result'', JArr [JObj [(''id'', JStr ''r1'')]])]"
         and env = "responses (Raises (RequestException ''unused''))
           (Response 200 [] (Some (JObj [(''success'', JBool False),
            (''result'', JArr [JObj [(''id'', JStr ''r1'')]])])))
           (Raises (RequestException ''unused'')) (Raises (RequestException ''unused''))"]
    discovery_returns_first_id
      [where cfg = scenario_config and z = "Some ''zone''" and n = "Some ''x.example.com''"
         and t = "''A''" and tx = "''forbidden''" and st = 403 and js = None
         and env = "responses (Raises (RequestException ''unused''))
           (Response 403 ''forbidden'' None)
           (Raises (RequestException ''unused'')) (Raises (RequestException ''unused''))"]
    discovery_returns_first_id
      [where cfg = scenario_config and z = "Some ''zone''" and n = "Some ''x.example.com''"
         and t = "''A''" and e = "RequestException ''timed out''"
         and env = "responses (Raises (RequestException ''unused''))
           (Raises (RequestException ''timed out''))
           (Raises (RequestException ''unused'')) (Raises (RequestException ''unused''))"]
  by (simp add: responses_def)

text \<open>
  C7. The update returns \<open>False\<close> when the status is not 200 or the HTTP library
  raises, and when the status is 200 and the body has success = false; it returns
  \<open>True\<close> when the status is 200 and the body has success = true, and only when
  the status is 200 and the success field of the body is true in Python's sense. The two
  kinds of failure are logged with different lines: status and text for the first, the
  response body for the second.
\<close>

theorem update_failure_kinds:
  "(env (update_request cfg ip) = Response st tx js \<and> st \<noteq> 200
    \<longrightarrow> update_cloudflare_dns_record cfg env ip =
          (Inr False, [Call (update_request cfg ip),
                       Log ERROR (Failed_to_update_DNS_record st tx)]))
 \<and> (env (update_request cfg ip) = Raises e \<and> is_Exception e
    \<longrightarrow> update_cloudflare_dns_record cfg env ip =
          (Inr False, [Call (update_request cfg ip),
                       Log ERROR (Error_updating_Cloudflare_DNS_record e)]))
 \<and> (env (update_request cfg ip) = Response 200 tx (Some (JObj kvs))
      \<and> map_of kvs ''success'' = Some (JBool False)
    \<longrightarrow> update_cloudflare_dns_record cfg env ip =
          (Inr False, [Call (update_request cfg ip),
                       Log ERROR (API_returned_success_false (JObj kvs))]))
 \<and> (env (update_request cfg ip) = Response 200 tx (Some (JObj kvs))
      \<and> map_of kvs ''success'' = Some (JBool True)
    \<longrightarrow> update_cloudflare_dns_record cfg env ip =
          (Inr True, [Call (update_request cfg ip), Log INFO (Successfully_updated ip)]))
 \<and> (fst (update_cloudflare_dns_record cfg env ip) = Inr True
    \<longrightarrow> (\<exists>tx' kvs' s. env (update_request cfg ip) = Response 200 tx' (Some (JObj kvs'))
            \<and> map_of kvs' ''success'' = Some s \<and> truthy s))
 \<and> Failed_to_update_DNS_record st tx \<noteq> API_returned_success_false (JObj kvs)"
proof -
  have conv: "fst (update_cloudflare_dns_record cfg env ip) = Inr True
    \<longrightarrow> (\<exists>tx' kvs' s. env (update_request cfg ip) = Response 200 tx' (Some (JObj kvs'))
            \<and> map_of kvs' ''success'' = Some s \<and> truthy s)"
  proof
    assume a: "fst (update_cloudflare_dns_record cfg env ip) = Inr True"
    show "\<exists>tx' kvs' s. env (update_request cfg ip) = Response 200 tx' (Some (JObj kvs'))
            \<and> map_of kvs' ''success'' = Some s \<and> truthy s"
    proof (cases "env (update_request cfg ip)")
      case (Raises e')
      with a show ?thesis
        by (simp add: update_cloudflare_dns_record_def Let_def split: if_splits)
    next
      case (Response st' tx' js')
      show ?thesis
      proof (cases js')
        case None
        with a Response show ?thesis
          by (simp add: update_cloudflare_dns_record_def response_json_def Let_def split: if_splits)
      next
        case (Some v)
        with a Response show ?thesis
          by (cases v)
             (auto simp: update_cloudflare_dns_record_def response_json_def Let_def
                split: if_splits option.splits)
      qed
    qed
  qed
  show ?thesis
    using conv
    by (simp add: update_cloudflare_dns_record_def response_json_def Let_def)
qed

theorem update_failure_kinds_witness:
  "update_cloudflare_dns_record scenario_config
      (responses (Raises (RequestException ''unused'')) (Raises (RequestException ''unused''))
         (Raises (RequestException ''unused'')) (Response 502 ''bad gateway'' None))
      ''1.2.3.4'' =
     (Inr False, [Call (update_request scenario_config ''1.2.3.4''),
                  Log ERROR (Failed_to_update_DNS_record 502 ''bad gateway'')])
 \<and> update_cloudflare_dns_record scenario_config
      (responses (Raises (RequestException ''unused'')) (Raises (RequestException ''unused''))
         (Raises (RequestException ''unused''))
         (Response 200 [] (Some (JObj [(''success'', JBool False), (''errors'', JArr [])]))))
      ''1.2.3.4'' =
     (Inr False, [Call (update_request scenario_config ''1.2.3.4''),
                  Log ERROR (API_returned_success_false
                     (JObj [(''success'', JBool False), (''errors'', JArr [])]))])
 \<and> update_cloudflare_dns_record scenario_config
      (responses (Raises (RequestException ''unused'')) (Raises (RequestException ''unused''))
         (Raises (RequestException ''unused''))
         (Response 200 [] (Some (JObj [(''success'', JBool True)]))))
      ''1.2.3.4'' =
     (Inr True, [Call (update_request scenario_config ''1.2.3.4''),
                 Log INFO (Successfully_updated ''1.2.3.4'')])
 \<and> update_cloudflare_dns_record scenario_config
      (responses (Raises (RequestException ''unused'')) (Raises (RequestException ''unused''))
         (Raises (RequestException ''unused'')) (Raises (RequestException ''timed out'')))
      ''1.2.3.4'' =
     (Inr False, [Call (update_request scenario_config ''1.2.3.4''),
                  Log ERROR (Error_updating_Cloudflare_DNS_record
                     (RequestException ''timed out''))])"
  using
    update_failure_kinds
      [where cfg = scenario_config and ip = "''1.2.3.4''" and st = 502
         and tx = "''bad gateway''" and js = None
         and env = "responses (Raises (RequestException ''unused''))
           (Raises (RequestException ''unused''))
           (Raises (RequestException ''unused'')) (Response 502 ''bad gateway'' None)"]
    update_failure_kinds
      [where cfg = scenario_config and ip = "''1.2.3.4''" and tx = "[]"
         and kvs = "[(''success'', JBool False), (''errors'', JArr [])]"
         and env = "responses (Raises (RequestException ''unused''))
           (Raises (RequestException ''unused'')) (Raises (RequestException ''unused''))
           (Response 200 [] (Some (JObj [(''success'', JBool False), (''errors'', JArr [])])))"]
    update_failure_kinds
      [where cfg = scenario_config and ip = "''1.2.3.4''" and tx = "[]"
         and kvs = "[(''success'', JBool True)]"
         and env = "responses (Raises (RequestException ''unused''))
           (Raises (RequestException ''unused'')) (Raises (RequestException ''unused''))
           (Response 200 [] (Some (JObj [(''success'', JBool True)])))"]
    update_failure_kinds
      [where cfg = scenario_config and ip = "''1.2.3.4''"
         and e = "RequestException ''timed out''"
         and env = "responses (Raises (RequestException ''unused''))
           (Raises (RequestException ''unused'')) (Raises (RequestException ''unused''))
           (Raises (RequestException ''timed out''))"]
  by (simp add: responses_def update_request_def)

text \<open>
  C8, as the claim states it: in the scenario the body of the update would keep the type,
  name, ttl and proxied flag of the record that was read. It does not: here the record
  read has the name home.example.com, ttl 120 and proxied true, and the update sends the
  name \<open>None\<close>, ttl 3600 and proxied false of the configuration.
\<close>

theorem scenario_other_fields_counterexample:
  "update_calls (snd (check_and_update scenario_config
      (responses (Response 200 ''1.2.3.4'' None) (Raises (RequestException ''unused''))
         (Response 200 [] (Some (JObj [(''success'', JBool True),
            (''result'', JObj [(''content'', JStr ''1.2.3.3''), (''type'', JStr ''A''),
               (''name'', JStr ''home.example.com''), (''ttl'', JNum 120),
               (''proxied'', JBool True)])])))
         (Response 200 [] (Some (JObj [(''success'', JBool True)])))))) =
     [PutRecord (Some ''token'') (Some ''zone'') (JStr ''abc123'')
        (JObj [(''type'', JStr ''A''), (''name'', JNull), (''content'', JStr ''1.2.3.4''),
               (''ttl'', JNum 3600), (''proxied'', JBool False)])]
 \<and> \<not> (\<exists>tok z rid body.
        update_calls (snd (check_and_update scenario_config
          (responses (Response 200 ''1.2.3.4'' None) (Raises (RequestException ''unused''))
             (Response 200 [] (Some (JObj [(''success'', JBool True),
                (''result'', JObj [(''content'', JStr ''1.2.3.3''), (''type'', JStr ''A''),
                   (''name'', JStr ''home.example.com''), (''ttl'', JNum 120),
                   (''proxied'', JBool True)])])))
             (Response 200 [] (Some (JObj [(''success'', JBool True)])))))) =
          [PutRecord tok z rid body]
        \<and> py_item body ''content'' = Inr (JStr ''1.2.3.4'')
        \<and> py_item body ''type'' = Inr (JStr ''A'')
        \<and> py_item body ''name'' = Inr (JStr ''home.example.com'')
        \<and> py_item body ''ttl'' = Inr (JNum 120)
        \<and> py_item body ''proxied'' = Inr (JBool True))"
proof -
  have "update_calls (snd (check_and_update scenario_config
      (responses (Response 200 ''1.2.3.4'' None) (Raises (RequestException ''unused''))
         (Response 200 [] (Some (JObj [(''success'', JBool True),
            (''result'', JObj [(''content'', JStr ''1.2.3.3''), (''type'', JStr ''A''),
               (''name'', JStr ''home.example.com''), (''ttl'', JNum 120),
               (''proxied'', JBool True)])])))
         (Response 200 [] (Some (JObj [(''success'', JBool True)])))))) =
     [PutRecord (Some ''token'') (Some ''zone'') (JStr ''abc123'')
        (JObj [(''type'', JStr ''A''), (''name'', JNull), (''content'', JStr ''1.2.3.4''),
               (''ttl'', JNum 3600), (''proxied'', JBool False)])]"
    using pass_calls_changed
      [of "responses (Response 200 ''1.2.3.4'' None) (Raises (RequestException ''unused''))
         (Response 200 [] (Some (JObj [(''success'', JBool True),
            (''result'', JObj [(''content'', JStr ''1.2.3.3''), (''type'', JStr ''A''),
               (''name'', JStr ''home.example.com''), (''ttl'', JNum 120),
               (''proxied'', JBool True)])])))
         (Response 200 [] (Some (JObj [(''success'', JBool True)])))"
        "''1.2.3.4''" None scenario_config "[]"
        "JObj [(''success'', JBool True),
            (''result'', JObj [(''content'', JStr ''1.2.3.3''), (''type'', JStr ''A''),
               (''name'', JStr ''home.example.com''), (''ttl'', JNum 120),
               (''proxied'', JBool True)])]"
        "JStr ''1.2.3.3''"]
    by (simp add: responses_def scenario_config_def published_ip_def update_calls_def
        update_request_def update_data_def env_value_def)
  then show ?thesis
    by simp
qed

text \<open>
  C8, amended. In a run configured with the record identifier abc123 and no domain name,
  when the IP echo returns 1.2.3.4 and the record read has the content 1.2.3.3, exactly
  one update call is issued, for the record abc123, and its body has the content 1.2.3.4
  and the type, ttl and proxied flag of the configuration, whatever those of the record
  read were.
\<close>

theorem scenario_update_from_configuration:
  assumes "DNS_RECORD_ID cfg = JStr ''abc123''"
    and "DOMAIN_NAME cfg = None"
    and "env GetIpify = Response 200 ''1.2.3.4'' js"
    and "env (GetRecord (CF_API_TOKEN cfg) (ZONE_ID cfg) (JStr ''abc123''))
           = Response 200 tx (Some dns_record)"
    and "published_ip dns_record = Inr (JStr ''1.2.3.3'')"
  shows "\<exists>body. update_calls (snd (check_and_update cfg env)) =
                  [PutRecord (CF_API_TOKEN cfg) (ZONE_ID cfg) (JStr ''abc123'') body]
              \<and> py_item body ''content'' = Inr (JStr ''1.2.3.4'')
              \<and> py_item body ''type'' = Inr (JStr (RECORD_TYPE cfg))
              \<and> py_item body ''ttl'' = Inr (JNum (TTL cfg))
              \<and> py_item body ''proxied'' = Inr (JBool (PROXIED cfg))"
proof -
  have t: "truthy dns_record"
    using assms(5) by (rule published_ip_string_truthy)
  have r: "env (GetRecord (CF_API_TOKEN cfg) (ZONE_ID cfg) (DNS_RECORD_ID cfg))
           = Response 200 tx (Some dns_record)"
    using assms(1,4) by simp
  have "calls (snd (check_and_update cfg env)) =
           [GetIpify, GetRecord (CF_API_TOKEN cfg) (ZONE_ID cfg) (DNS_RECORD_ID cfg),
            update_request cfg ''1.2.3.4'']"
    using pass_calls_changed [OF assms(3) r t assms(5)] by simp
  then have "update_calls (snd (check_and_update cfg env)) =
      [PutRecord (CF_API_TOKEN cfg) (ZONE_ID cfg) (JStr ''abc123'') (update_data cfg ''1.2.3.4'')]"
    using assms(1) by (simp add: update_calls_def update_request_def)
  then show ?thesis
    by (simp add: update_data_def)
qed

theorem scenario_update_from_configuration_witness:
  "\<exists>body. update_calls (snd (check_and_update scenario_config
      (responses (Response 200 ''1.2.3.4'' None) (Raises (RequestException ''unused''))
         (Response 200 [] (Some (JObj [(''success'', JBool True),
            (''result'', JObj [(''content'', JStr ''1.2.3.3''), (''ttl'', JNum 120)])])))
         (Response 200 [] (Some (JObj [(''success'', JBool True)])))))) =
        [PutRecord (Some ''token'') (Some ''zone'') (JStr ''abc123'') body]
     \<and> py_item body ''content'' = Inr (JStr ''1.2.3.4'')
     \<and> py_item body ''type'' = Inr (JStr ''A'')
     \<and> py_item body ''ttl'' = Inr (JNum 3600)
     \<and> py_item body ''proxied'' = Inr (JBool False)"
  using scenario_update_from_configuration
    [of scenario_config
        "responses (Response 200 ''1.2.3.4'' None) (Raises (RequestException ''unused''))
         (Response 200 [] (Some (JObj [(''success'', JBool True),
            (''result'', JObj [(''content'', JStr ''1.2.3.3''), (''ttl'', JNum 120)])])))
         (Response 200 [] (Some (JObj [(''success'', JBool True)])))"
        None "[]"
        "JObj [(''success'', JBool True),
            (''result'', JObj [(''content'', JStr ''1.2.3.3''), (''ttl'', JNum 120)])]"]
  by (simp add: responses_def scenario_config_def published_ip_def)



text \<open>
  C10, as the claim states it: whenever the read returns status 200 with a JSON body that
  has no content under result, an update would be issued. It is not when the body is the
  empty object, which is false for \<^verbatim>\<open>if not dns_record\<close>, nor when the body has
  success = false and result = null, where \<^verbatim>\<open>.get("content")\<close> on \<open>None\<close> raises.
\<close>

theorem missing_content_counterexample:
  "update_calls (snd (check_and_update scenario_config
      (responses (Response 200 ''1.2.3.4'' None) (Raises (RequestException ''unused''))
         (Response 200 ''{}'' (Some (JObj [])))
         (Response 200 [] (Some (JObj [(''success'', JBool True)])))))) = []
 \<and> update_calls (snd (check_and_update scenario_config
      (responses (Response 200 ''1.2.3.4'' None) (Raises (RequestException ''unused''))
         (Response 200 [] (Some (JObj [(''success'', JBool False), (''result'', JNull)])))
         (Response 200 [] (Some (JObj [(''success'', JBool True)])))))) = []"
proof -
  have "check_and_update_try scenario_config
      (responses (Response 200 ''1.2.3.4'' None) (Raises (RequestException ''unused''))
         (Response 200 ''{}'' (Some (JObj [])))
         (Response 200 [] (Some (JObj [(''success'', JBool True)])))) =
     (Inr (), [Call GetIpify, Log INFO (Current_public_IP ''1.2.3.4''),
               Call (GetRecord (Some ''token'') (Some ''zone'') (JStr ''abc123'')),
               Log ERROR Failed_to_retrieve_Skipping_update])"
    by (simp add: check_and_update_try_def get_current_ip_def get_cloudflare_dns_record_def
        response_json_def responses_def scenario_config_def)
  moreover have "check_and_update_try scenario_config
      (responses (Response 200 ''1.2.3.4'' None) (Raises (RequestException ''unused''))
         (Response 200 [] (Some (JObj [(''success'', JBool False), (''result'', JNull)])))
         (Response 200 [] (Some (JObj [(''success'', JBool True)])))) =
     (Inl AttributeError, [Call GetIpify, Log INFO (Current_public_IP ''1.2.3.4''),
               Call (GetRecord (Some ''token'') (Some ''zone'') (JStr ''abc123''))])"
    by (simp add: check_and_update_try_def get_current_ip_def get_cloudflare_dns_record_def
        response_json_def responses_def scenario_config_def published_ip_def)
  ultimately show ?thesis
    by (simp add: check_and_update_def update_calls_def)
qed

text \<open>
  C10, amended. If the read returns status 200 and its JSON body is an object that is not
  empty and in which result is missing, or is an object without content, then the pass
  takes \<open>None\<close> as the published IP and, the resolved IP being a string, issues one update
  call with the resolved IP.
\<close>

theorem missing_content_forces_update:
  assumes "env GetIpify = Response 200 ip js"
    and "env (GetRecord (CF_API_TOKEN cfg) (ZONE_ID cfg) (DNS_RECORD_ID cfg))
           = Response 200 tx (Some (JObj kvs))"
    and "kvs \<noteq> []"
    and "map_of kvs ''result'' = None
         \<or> (\<exists>res. map_of kvs ''result'' = Some (JObj res) \<and> map_of res ''content'' = None)"
  shows "published_ip (JObj kvs) = Inr JNull
       \<and> update_calls (snd (check_and_update cfg env)) =
           [PutRecord (CF_API_TOKEN cfg) (ZONE_ID cfg) (DNS_RECORD_ID cfg)
              (JObj [(''type'', JStr (RECORD_TYPE cfg)),
                     (''name'', env_value (DOMAIN_NAME cfg)),
                     (''content'', JStr ip),
                     (''ttl'', JNum (TTL cfg)),
                     (''proxied'', JBool (PROXIED cfg))])]"
proof -
  have p: "published_ip (JObj kvs) = Inr JNull"
    using assms(4) by (auto simp: published_ip_def)
  have t: "truthy (JObj kvs)"
    using assms(3) by simp
  have "JStr ip \<noteq> JNull"
    by simp
  from pass_calls_changed [OF assms(1,2) t p this] p show ?thesis
    by (simp add: update_calls_def update_request_def update_data_def)
qed

theorem missing_content_forces_update_witness:
  "update_calls (snd (check_and_update scenario_config
      (responses (Response 200 ''1.2.3.4'' None) (Raises (RequestException ''unused''))
         (Response 200 [] (Some (JObj [(''success'', JBool False)])))
         (Response 200 [] (Some (JObj [(''success'', JBool True)])))))) =
     [PutRecord (Some ''token'') (Some ''zone'') (JStr ''abc123'')
        (JObj [(''type'', JStr ''A''), (''name'', JNull), (''content'', JStr ''1.2.3.4''),
               (''ttl'', JNum 3600), (''proxied'', JBool False)])]"
  using missing_content_forces_update
    [of "responses (Response 200 ''1.2.3.4'' None) (Raises (RequestException ''unused''))
         (Response 200 [] (Some (JObj [(''success'', JBool False)])))
         (Response 200 [] (Some (JObj [(''success'', JBool True)])))"
        "''1.2.3.4''" None scenario_config "[]" "[(''success'', JBool False)]"]
  by (simp add: responses_def scenario_config_def env_value_def)

end
